theory Spec2Isabelle
  imports Complex_Main
begin

section \<open>The Hadamard pulse-optimisation notebook\<close>

text \<open>
  The repository is one Jupyter notebook, \<^verbatim>\<open>examples/control-pulseoptim-Hadamard.ipynb\<close>.
  Its code cells form a straight-line Python script: they assign the problem parameters,
  call \<^verbatim>\<open>cpo.optimize_pulse_unitary\<close> of the QuTiP library, print the returned result
  and plot the initial and final control amplitudes.

  The script is embedded as a sequence of state transformers, one per code cell, in the
  order of the notebook. The state holds the global namespace of the data variables the
  cells assign and the trace of everything the script does to the outside world (imports,
  the optimiser call, reads of the result's attributes, prints, plotting commands).
  An exception stops the run, as "Run All" does, and keeps the state reached so far.
\<close>

subsection \<open>Values\<close>

type_synonym qobj = "complex list list"

text \<open>
  The result object of the optimiser, with the attributes the notebook reads.
  Python floats are read as the real numbers they denote: the notebook does no
  arithmetic on them. The statistics object is represented by the text its
  \<^verbatim>\<open>report()\<close> method prints.
\<close>

record optim_result =
  stats :: string
  evo_full_final :: qobj
  fid_err :: real
  grad_norm_final :: real
  termination_reason :: string
  num_iter :: int
  wall_time :: real
  time :: "real list"
  initial_amps :: "real list list"
  final_amps :: "real list list"

datatype pyval =
    VNone
  | VBool bool
  | VInt int
  | VFloat real
  | VStr string
  | VList "pyval list"
  | VQobj qobj
  | VArray1 "real list"
  | VArray2 "real list list"
  | VStats string
  | VTimedelta real
  | VResult optim_result
  | VLogger
  | VFigure
  | VAxes int

datatype error =
    NameError string
  | AttributeError string
  | TypeError
  | IndexError
  | ValueError
  | LibraryError string

subsection \<open>The outside world\<close>

text \<open>
  A call of \<^verbatim>\<open>optimize_pulse_unitary\<close>: the positional arguments in order and the
  keyword arguments in the order they are written.
\<close>

record call =
  pos :: "pyval list"
  kw :: "(string \<times> pyval) list"

datatype plot_cmd =
    Figure
  | AddSubplot int int int
  | SetTitle int string
  | SetXLabel int string
  | SetYLabel int string
  | Step int "real list" "real list" string
  | TightLayout
  | Show

datatype event =
    EMagic string
  | EImport string
  | EGetLogger
  | ECall call
  | EFileWrite string
  | EReadResult string
  | EPrint string
  | EPlot plot_cmd
  | EVersionTable

text \<open>
  What the notebook cannot fix is a parameter of the model: the value (or exception)
  that the optimiser returns for a call, how Python renders a float, a quantum
  object or a timedelta as text, and the library's constant \<^verbatim>\<open>logging.INFO\<close>.
\<close>

record ext =
  optimize_pulse_unitary :: "call \<Rightarrow> error + optim_result"
  obj_str :: "pyval \<Rightarrow> string"
  logging_INFO :: pyval

subsection \<open>State and statements\<close>

record nb_state =
  globals :: "string \<rightharpoonup> pyval"
  events :: "event list"

type_synonym 'a py = "nb_state \<Rightarrow> (error + 'a) \<times> nb_state"

definition initial_state :: nb_state where
  "initial_state = \<lparr>globals = Map.empty, events = []\<rparr>"

definition ret :: "'a \<Rightarrow> 'a py" where
  "ret x = (\<lambda>s. (Inr x, s))"

definition raise :: "error \<Rightarrow> 'a py" where
  "raise e = (\<lambda>s. (Inl e, s))"

definition bind_py :: "'a py \<Rightarrow> ('a \<Rightarrow> 'b py) \<Rightarrow> 'b py" where
  "bind_py m f = (\<lambda>s. case m s of (Inl e, s') \<Rightarrow> (Inl e, s') | (Inr x, s') \<Rightarrow> f x s')"

definition then_py :: "unit py \<Rightarrow> 'b py \<Rightarrow> 'b py" where
  "then_py m n = bind_py m (\<lambda>_. n)"

definition lift :: "error + 'a \<Rightarrow> 'a py" where
  "lift r = (\<lambda>s. (r, s))"

fun seq :: "unit py list \<Rightarrow> unit py" where
  "seq [] = ret ()"
| "seq (m # ms) = then_py m (seq ms)"

definition emit :: "event \<Rightarrow> unit py" where
  "emit e = (\<lambda>s. (Inr (), s\<lparr>events := events s @ [e]\<rparr>))"

definition var :: "string \<Rightarrow> pyval py" where
  "var x = (\<lambda>s. case globals s x of None \<Rightarrow> (Inl (NameError x), s) | Some v \<Rightarrow> (Inr v, s))"

definition assign :: "string \<Rightarrow> pyval py \<Rightarrow> unit py" where
  "assign x e = bind_py e (\<lambda>v s. (Inr (), s\<lparr>globals := (globals s)(x \<mapsto> v)\<rparr>))"

definition py_import :: "string \<Rightarrow> unit py" where
  "py_import m = emit (EImport m)"

subsection \<open>Python built-ins the cells use\<close>

definition digit_char :: "nat \<Rightarrow> char" where
  "digit_char d = ''0123456789'' ! d"

function str_nat :: "nat \<Rightarrow> string" where
  "str_nat n = (if n < 10 then [digit_char n] else str_nat (n div 10) @ [digit_char (n mod 10)])"
  by pat_completeness auto
termination
  by (relation "measure id") auto

definition str_int :: "int \<Rightarrow> string" where
  "str_int i = (if i < 0 then CHR ''-'' # str_nat (nat (- i)) else str_nat (nat i))"

text \<open>\<^verbatim>\<open>str(v)\<close>, as \<^verbatim>\<open>str.format\<close> applies it to an argument of a \<^verbatim>\<open>{}\<close> field.\<close>

definition py_str :: "ext \<Rightarrow> pyval \<Rightarrow> string" where
  "py_str x v =
     (case v of
        VStr s \<Rightarrow> s
      | VInt i \<Rightarrow> str_int i
      | VNone \<Rightarrow> ''None''
      | VBool b \<Rightarrow> (if b then ''True'' else ''False'')
      | _ \<Rightarrow> obj_str x v)"

text \<open>
  \<^verbatim>\<open>template.format(*args)\<close> for templates whose only replacement fields are \<^verbatim>\<open>{}\<close>,
  the only form the notebook uses: each field takes the next argument, too few arguments
  raise IndexError, surplus ones are ignored, and any other brace raises ValueError.
\<close>

fun fill :: "string \<Rightarrow> string list \<Rightarrow> error + string" where
  "fill [] args = Inr []"
| "fill [c] args = (if c = CHR ''{'' \<or> c = CHR ''}'' then Inl ValueError else Inr [c])"
| "fill (c # d # cs) args =
     (if c = CHR ''{'' then
        (if d = CHR ''}'' then
           (case args of
              [] \<Rightarrow> Inl IndexError
            | a # as \<Rightarrow> (case fill cs as of Inl e \<Rightarrow> Inl e | Inr t \<Rightarrow> Inr (a @ t)))
         else Inl ValueError)
      else if c = CHR ''}'' then Inl ValueError
      else (case fill (d # cs) args of Inl e \<Rightarrow> Inl e | Inr t \<Rightarrow> Inr (c # t)))"

definition format :: "ext \<Rightarrow> string \<Rightarrow> pyval list \<Rightarrow> pyval py" where
  "format x template args =
     lift (case fill template (map (py_str x) args) of Inl e \<Rightarrow> Inl e | Inr t \<Rightarrow> Inr (VStr t))"

definition print :: "ext \<Rightarrow> pyval \<Rightarrow> unit py" where
  "print x v = emit (EPrint (py_str x v))"

text \<open>
  Python's index rule for a sequence of \<open>n\<close> elements: a negative index counts from
  the end, and an index outside the sequence raises IndexError.
\<close>

definition py_index :: "nat \<Rightarrow> int \<Rightarrow> error + nat" where
  "py_index n i =
     (let j = (if i < 0 then int n + i else i)
      in if 0 \<le> j \<and> j < int n then Inr (nat j) else Inl IndexError)"

fun collect :: "(error + 'a) list \<Rightarrow> error + 'a list" where
  "collect [] = Inr []"
| "collect (Inl e # rs) = Inl e"
| "collect (Inr v # rs) = (case collect rs of Inl e \<Rightarrow> Inl e | Inr vs \<Rightarrow> Inr (v # vs))"

text \<open>
  \<^verbatim>\<open>a[:, j]\<close> and \<^verbatim>\<open>a[i, j]\<close> on a two-dimensional array, kept as the list of its rows,
  and \<^verbatim>\<open>np.hstack((c, l))\<close> of a one-dimensional array and a scalar. An array with no
  rows has an empty column \<open>j\<close>; a row too short for the index raises IndexError.
\<close>

definition column_of :: "real list list \<Rightarrow> int \<Rightarrow> error + real list" where
  "column_of rows j =
     collect (map (\<lambda>row. case py_index (length row) j of
                            Inl e \<Rightarrow> Inl e
                          | Inr k \<Rightarrow> Inr (row ! k)) rows)"

definition item_of :: "real list list \<Rightarrow> int \<Rightarrow> int \<Rightarrow> error + real" where
  "item_of rows i j =
     (case py_index (length rows) i of
        Inl e \<Rightarrow> Inl e
      | Inr k \<Rightarrow>
          (case py_index (length (rows ! k)) j of
             Inl e \<Rightarrow> Inl e
           | Inr l \<Rightarrow> Inr (rows ! k ! l)))"

definition column :: "pyval \<Rightarrow> int \<Rightarrow> error + pyval" where
  "column a j =
     (case a of
        VArray2 rows \<Rightarrow>
          (case column_of rows j of Inl e \<Rightarrow> Inl e | Inr c \<Rightarrow> Inr (VArray1 c))
      | _ \<Rightarrow> Inl TypeError)"

definition item :: "pyval \<Rightarrow> int \<Rightarrow> int \<Rightarrow> error + pyval" where
  "item a i j =
     (case a of
        VArray2 rows \<Rightarrow>
          (case item_of rows i j of Inl e \<Rightarrow> Inl e | Inr v \<Rightarrow> Inr (VFloat v))
      | _ \<Rightarrow> Inl TypeError)"

definition hstack :: "pyval \<Rightarrow> pyval \<Rightarrow> error + pyval" where
  "hstack c l =
     (case (c, l) of
        (VArray1 xs, VFloat y) \<Rightarrow> Inr (VArray1 (xs @ [y]))
      | _ \<Rightarrow> Inl TypeError)"

text \<open>\<^verbatim>\<open>datetime.timedelta(seconds=v)\<close>.\<close>

definition timedelta :: "pyval \<Rightarrow> pyval py" where
  "timedelta v =
     (case v of
        VFloat t \<Rightarrow> ret (VTimedelta t)
      | VInt i \<Rightarrow> ret (VTimedelta (of_int i))
      | _ \<Rightarrow> raise TypeError)"

subsection \<open>Attributes and methods of the library's objects\<close>

definition result_attr :: "optim_result \<Rightarrow> string \<Rightarrow> pyval option" where
  "result_attr r n =
     map_of
       [(''stats'', VStats (stats r)),
        (''evo_full_final'', VQobj (evo_full_final r)),
        (''fid_err'', VFloat (fid_err r)),
        (''grad_norm_final'', VFloat (grad_norm_final r)),
        (''termination_reason'', VStr (termination_reason r)),
        (''num_iter'', VInt (num_iter r)),
        (''wall_time'', VFloat (wall_time r)),
        (''time'', VArray1 (time r)),
        (''initial_amps'', VArray2 (initial_amps r)),
        (''final_amps'', VArray2 (final_amps r))] n"

text \<open>\<^verbatim>\<open>v.n\<close>; a read of an attribute of the result object is recorded in the trace.\<close>

definition getattr :: "pyval \<Rightarrow> string \<Rightarrow> pyval py" where
  "getattr v n =
     (case v of
        VResult r \<Rightarrow>
          then_py (emit (EReadResult n))
            (case result_attr r n of None \<Rightarrow> raise (AttributeError n) | Some a \<Rightarrow> ret a)
      | _ \<Rightarrow> raise (AttributeError n))"

definition report :: "pyval \<Rightarrow> unit py" where
  "report v = (case v of VStats t \<Rightarrow> emit (EPrint t) | _ \<Rightarrow> raise (AttributeError ''report''))"

definition get_logger :: "pyval py" where
  "get_logger = then_py (emit EGetLogger) (ret VLogger)"

definition figure :: "pyval py" where
  "figure = then_py (emit (EPlot Figure)) (ret VFigure)"

definition add_subplot :: "pyval \<Rightarrow> int \<Rightarrow> int \<Rightarrow> int \<Rightarrow> pyval py" where
  "add_subplot f r c i =
     (case f of
        VFigure \<Rightarrow> then_py (emit (EPlot (AddSubplot r c i))) (ret (VAxes i))
      | _ \<Rightarrow> raise (AttributeError ''add_subplot''))"

definition set_title :: "pyval \<Rightarrow> string \<Rightarrow> unit py" where
  "set_title ax t =
     (case ax of VAxes i \<Rightarrow> emit (EPlot (SetTitle i t)) | _ \<Rightarrow> raise (AttributeError ''set_title''))"

definition set_xlabel :: "pyval \<Rightarrow> string \<Rightarrow> unit py" where
  "set_xlabel ax t =
     (case ax of VAxes i \<Rightarrow> emit (EPlot (SetXLabel i t)) | _ \<Rightarrow> raise (AttributeError ''set_xlabel''))"

definition set_ylabel :: "pyval \<Rightarrow> string \<Rightarrow> unit py" where
  "set_ylabel ax t =
     (case ax of VAxes i \<Rightarrow> emit (EPlot (SetYLabel i t)) | _ \<Rightarrow> raise (AttributeError ''set_ylabel''))"

definition step :: "pyval \<Rightarrow> pyval \<Rightarrow> pyval \<Rightarrow> string \<Rightarrow> unit py" where
  "step ax x y w =
     (case ax of
        VAxes i \<Rightarrow>
          (case (x, y) of
             (VArray1 xs, VArray1 ys) \<Rightarrow> emit (EPlot (Step i xs ys w))
           | _ \<Rightarrow> raise TypeError)
      | _ \<Rightarrow> raise (AttributeError ''step''))"

subsection \<open>The library's operators\<close>

text \<open>
  Modelled from the spec: \<^verbatim>\<open>qutip.sigmaz\<close> is not part of the repository. The spec calls
  the fixed Hamiltonian a small dense complex 2x2 matrix; the entries are the ones the
  notebook's recorded log prints for the drift Hamiltonian.
\<close>

definition sigmaz :: qobj where
  "sigmaz = [[1, 0], [0, - 1]]"

text \<open>
  Modelled from the spec: \<^verbatim>\<open>qutip.sigmax\<close> is not part of the repository. The spec calls
  the variable Hamiltonian a small dense complex 2x2 matrix; the entries are the ones the
  notebook's recorded log prints for the control Hamiltonian.
\<close>

definition sigmax :: qobj where
  "sigmax = [[0, 1], [1, 0]]"

text \<open>
  Modelled from the spec: \<^verbatim>\<open>qutip.identity\<close> is not part of the repository; it is the
  identity operator of the given dimension, the initial operator of the recorded log.
\<close>

definition identity :: "nat \<Rightarrow> qobj" where
  "identity n = map (\<lambda>i. map (\<lambda>j. if i = j then 1 else 0) [0..<n]) [0..<n]"

text \<open>
  Modelled from the spec: the single-qubit Hadamard gate, which the spec names as the
  target, is built by the library and is not part of the repository; the entries are the
  ones the notebook's recorded log prints for the target, \<open>1 / sqrt 2\<close> in exact terms.
\<close>

definition hadamard_gate :: qobj where
  "hadamard_gate =
     [[complex_of_real (1 / sqrt 2), complex_of_real (1 / sqrt 2)],
      [complex_of_real (1 / sqrt 2), - complex_of_real (1 / sqrt 2)]]"

text \<open>
  Modelled from the spec: the library's tensor product of operators is not part of the
  repository; it is the Kronecker product of the matrices.
\<close>

definition kron :: "qobj \<Rightarrow> qobj \<Rightarrow> qobj" where
  "kron a b = concat (map (\<lambda>ra. map (\<lambda>rb. concat (map (\<lambda>x. map (\<lambda>y. x * y) rb) ra)) b) a)"

text \<open>
  Modelled from the spec: \<^verbatim>\<open>qutip.qip.hadamard_transform\<close> is not part of the repository.
  For \<open>n\<close> qubits the transform is the \<open>n\<close>-fold Kronecker power of the single-qubit
  Hadamard gate, so that for one qubit it is the gate the spec names as the target.
\<close>

primrec hadamard_transform :: "nat \<Rightarrow> qobj" where
  "hadamard_transform 0 = [[1]]"
| "hadamard_transform (Suc n) = kron hadamard_gate (hadamard_transform n)"

text \<open>
  Modelled from the spec: the body of \<^verbatim>\<open>optimize_pulse_unitary\<close> is not part of the
  repository. Its optional side effect is to write the initial and the final amplitude
  arrays to text files named by the suffix passed as \<^verbatim>\<open>out_file_ext\<close>; the notebook's
  comment says that None suppresses the files, and its recorded log gives the two names.
\<close>

definition output_files :: "call \<Rightarrow> string list" where
  "output_files c =
     (case map_of (kw c) ''out_file_ext'' of
        Some (VStr suffix) \<Rightarrow> [''ctrl_amps_initial_'' @ suffix, ''ctrl_amps_final_'' @ suffix]
      | _ \<Rightarrow> [])"

text \<open>
  Modelled from the spec: the library's choice of the optimisation method is not part of
  the repository. The method is L-BFGS-B (\<^verbatim>\<open>fmin_l_bfgs_b\<close> in the recorded log) unless the
  caller overrides it with the \<^verbatim>\<open>optim_method\<close> keyword.
\<close>

definition optim_method_used :: "call \<Rightarrow> pyval" where
  "optim_method_used c =
     (case map_of (kw c) ''optim_method'' of
        None \<Rightarrow> VStr ''fmin_l_bfgs_b''
      | Some m \<Rightarrow> m)"

text \<open>
  The call itself: it is recorded in the trace, the library either raises or returns a
  result, and a returning call has written its output files.
\<close>

definition call_optimize_pulse_unitary :: "ext \<Rightarrow> call \<Rightarrow> pyval py" where
  "call_optimize_pulse_unitary x c =
     then_py (emit (ECall c))
       (case optimize_pulse_unitary x c of
          Inl e \<Rightarrow> raise e
        | Inr r \<Rightarrow> then_py (seq (map (\<lambda>f. emit (EFileWrite f)) (output_files c))) (ret (VResult r)))"

subsection \<open>The code cells\<close>

text \<open>
  Names bound by an import (\<^verbatim>\<open>np\<close>, \<^verbatim>\<open>plt\<close>, \<^verbatim>\<open>cpo\<close>, \<^verbatim>\<open>sigmaz\<close>, ...) are never
  rebound by the notebook, so a use of such a name is the library's function itself; an
  import only leaves its mark in the trace.
\<close>

definition cell_imports :: "unit py" where
  "cell_imports =
     seq [emit (EMagic ''matplotlib inline''),
          py_import ''numpy'',
          py_import ''matplotlib.pyplot'',
          py_import ''datetime'']"

definition cell_setup :: "ext \<Rightarrow> unit py" where
  "cell_setup x =
     seq [py_import ''qutip'',
          py_import ''qutip.qip'',
          py_import ''qutip.logging_utils'',
          assign ''logger'' get_logger,
          assign ''log_level'' (ret (logging_INFO x)),
          py_import ''qutip.control.pulseoptim'',
          assign ''example_name'' (ret (VStr ''Hadamard''))]"

definition cell_physics :: "unit py" where
  "cell_physics =
     seq [assign ''H_d'' (ret (VQobj sigmaz)),
          assign ''H_c'' (ret (VList [VQobj sigmax])),
          assign ''U_0'' (ret (VQobj (identity 2))),
          assign ''U_targ'' (ret (VQobj (hadamard_transform 1)))]"

definition cell_time :: "unit py" where
  "cell_time =
     seq [assign ''n_ts'' (ret (VInt 10)),
          assign ''evo_time'' (ret (VInt 10))]"

text \<open>The float literals \<^verbatim>\<open>1e-10\<close> and \<^verbatim>\<open>1e-20\<close> are read as the decimals they write.\<close>

definition cell_termination :: "unit py" where
  "cell_termination =
     seq [assign ''fid_err_targ'' (ret (VFloat (1 / 10 ^ 10))),
          assign ''max_iter'' (ret (VInt 200)),
          assign ''max_wall_time'' (ret (VInt 120)),
          assign ''min_grad'' (ret (VFloat (1 / 10 ^ 20)))]"

definition cell_pulse_type :: "unit py" where
  "cell_pulse_type = assign ''p_type'' (ret (VStr ''RND''))"

definition cell_file_ext :: "ext \<Rightarrow> unit py" where
  "cell_file_ext x =
     assign ''f_ext''
       (bind_py (var ''example_name'') (\<lambda>a.
        bind_py (var ''n_ts'') (\<lambda>b.
        bind_py (var ''p_type'') (\<lambda>c.
        format x ''{}_n_ts{}_ptype{}.txt'' [a, b, c]))))"

definition cell_optimise :: "ext \<Rightarrow> unit py" where
  "cell_optimise x =
     assign ''result''
       (bind_py (var ''H_d'') (\<lambda>H_d.
        bind_py (var ''H_c'') (\<lambda>H_c.
        bind_py (var ''U_0'') (\<lambda>U_0.
        bind_py (var ''U_targ'') (\<lambda>U_targ.
        bind_py (var ''n_ts'') (\<lambda>n_ts.
        bind_py (var ''evo_time'') (\<lambda>evo_time.
        bind_py (var ''fid_err_targ'') (\<lambda>fid_err_targ.
        bind_py (var ''min_grad'') (\<lambda>min_grad.
        bind_py (var ''max_iter'') (\<lambda>max_iter.
        bind_py (var ''max_wall_time'') (\<lambda>max_wall_time.
        bind_py (var ''f_ext'') (\<lambda>f_ext.
        bind_py (var ''p_type'') (\<lambda>p_type.
        bind_py (var ''log_level'') (\<lambda>log_level.
        call_optimize_pulse_unitary x
          \<lparr>pos = [H_d, H_c, U_0, U_targ, n_ts, evo_time],
           kw = [(''fid_err_targ'', fid_err_targ), (''min_grad'', min_grad),
                 (''max_iter'', max_iter), (''max_wall_time'', max_wall_time),
                 (''out_file_ext'', f_ext), (''init_pulse_type'', p_type),
                 (''log_level'', log_level), (''gen_stats'', VBool True)]\<rparr>))))))))))))))"

text \<open>\<^verbatim>\<open>result.n\<close>, where \<^verbatim>\<open>result\<close> is the global variable.\<close>

definition result_field :: "string \<Rightarrow> pyval py" where
  "result_field n = bind_py (var ''result'') (\<lambda>r. getattr r n)"

definition cell_report :: "ext \<Rightarrow> unit py" where
  "cell_report x =
     seq [bind_py (result_field ''stats'') report,
          bind_py (bind_py (result_field ''evo_full_final'')
                     (\<lambda>v. format x ''Final evolution\<newline>{}\<newline>'' [v])) (print x),
          print x (VStr ''********* Summary *****************''),
          bind_py (bind_py (result_field ''fid_err'')
                     (\<lambda>v. format x ''Final fidelity error {}'' [v])) (print x),
          bind_py (bind_py (result_field ''grad_norm_final'')
                     (\<lambda>v. format x ''Final gradient normal {}'' [v])) (print x),
          bind_py (bind_py (result_field ''termination_reason'')
                     (\<lambda>v. format x ''Terminated due to {}'' [v])) (print x),
          bind_py (bind_py (result_field ''num_iter'')
                     (\<lambda>v. format x ''Number of iterations {}'' [v])) (print x),
          bind_py (bind_py (bind_py (result_field ''wall_time'') timedelta)
                     (\<lambda>v. format x ''Completed in {} HH:MM:SS.US'' [v])) (print x)]"

text \<open>
  \<^verbatim>\<open>ax.step(result.time, np.hstack((result.amps[:, 0], result.amps[-1, 0])), where='post')\<close>
  for the axes variable \<open>ax\<close> and the amplitude attribute \<open>amps\<close>.
\<close>

definition step_plot :: "string \<Rightarrow> string \<Rightarrow> unit py" where
  "step_plot ax amps =
     bind_py (var ax) (\<lambda>a.
     bind_py (result_field ''time'') (\<lambda>t.
     bind_py (bind_py (result_field amps) (\<lambda>m. lift (column m 0))) (\<lambda>c.
     bind_py (bind_py (result_field amps) (\<lambda>m. lift (item m (- 1) 0))) (\<lambda>l.
     bind_py (lift (hstack c l)) (\<lambda>y.
     step a t y ''post'')))))"

definition cell_plot :: "unit py" where
  "cell_plot =
     seq [assign ''fig1'' figure,
          assign ''ax1'' (bind_py (var ''fig1'') (\<lambda>f. add_subplot f 2 1 1)),
          bind_py (var ''ax1'') (\<lambda>a. set_title a ''Initial control amps''),
          bind_py (var ''ax1'') (\<lambda>a. set_ylabel a ''Control amplitude''),
          step_plot ''ax1'' ''initial_amps'',
          assign ''ax2'' (bind_py (var ''fig1'') (\<lambda>f. add_subplot f 2 1 2)),
          bind_py (var ''ax2'') (\<lambda>a. set_title a ''Optimised Control Sequences''),
          bind_py (var ''ax2'') (\<lambda>a. set_xlabel a ''Time''),
          bind_py (var ''ax2'') (\<lambda>a. set_ylabel a ''Control amplitude''),
          step_plot ''ax2'' ''final_amps'',
          emit (EPlot TightLayout),
          emit (EPlot Show)]"

definition cell_versions :: "unit py" where
  "cell_versions =
     seq [py_import ''qutip.ipynbtools'',
          emit EVersionTable]"

subsection \<open>The notebook\<close>

text \<open>
  The code cells in notebook order. The cell that sets \<^verbatim>\<open>f_ext\<close> is a parameter, for the
  edit its comment invites ("Set to None to suppress output files").
\<close>

definition cells_with :: "unit py \<Rightarrow> ext \<Rightarrow> unit py list" where
  "cells_with file_ext_cell x =
     [cell_imports, cell_setup x, cell_physics, cell_time, cell_termination,
      cell_pulse_type, file_ext_cell, cell_optimise x, cell_report x, cell_plot,
      cell_versions]"

definition notebook_with :: "unit py \<Rightarrow> ext \<Rightarrow> (error + unit) \<times> nb_state" where
  "notebook_with file_ext_cell x = seq (cells_with file_ext_cell x) initial_state"

definition notebook :: "ext \<Rightarrow> (error + unit) \<times> nb_state" where
  "notebook x = notebook_with (cell_file_ext x) x"

text \<open>The run of the first \<open>n\<close> code cells, and what the cells after them add to the trace.\<close>

definition run_cells :: "nat \<Rightarrow> ext \<Rightarrow> (error + unit) \<times> nb_state" where
  "run_cells n x = seq (take n (cells_with (cell_file_ext x) x)) initial_state"

definition events_after :: "nat \<Rightarrow> ext \<Rightarrow> event list" where
  "events_after n x = drop (length (events (snd (run_cells n x)))) (events (snd (notebook x)))"

subsection \<open>Reading a trace\<close>

fun calls_of :: "event list \<Rightarrow> call list" where
  "calls_of [] = []"
| "calls_of (ECall c # es) = c # calls_of es"
| "calls_of (e # es) = calls_of es"

fun reads_of :: "event list \<Rightarrow> string list" where
  "reads_of [] = []"
| "reads_of (EReadResult n # es) = n # reads_of es"
| "reads_of (e # es) = reads_of es"

fun files_of :: "event list \<Rightarrow> string list" where
  "files_of [] = []"
| "files_of (EFileWrite f # es) = f # files_of es"
| "files_of (e # es) = files_of es"

fun steps_of :: "event list \<Rightarrow> plot_cmd list" where
  "steps_of [] = []"
| "steps_of (EPlot (Step i xs ys w) # es) = Step i xs ys w # steps_of es"
| "steps_of (e # es) = steps_of es"

subsection \<open>A sample library\<close>

text \<open>
  A library that behaves as in the run recorded in the notebook: the optimiser returns a
  result with the recorded summary values (goal achieved after 5 iterations), ten
  timeslots of one control, and a time grid of eleven points.
\<close>

definition sample_result :: optim_result where
  "sample_result =
     \<lparr>stats = ''---- Control optimisation stats ----'',
      evo_full_final = [[\<i>, \<i>], [\<i>, - \<i>]],
      fid_err = 5941913627793838 / 10 ^ 28,
      grad_norm_final = 691241029719096 / 10 ^ 19,
      termination_reason = ''Goal achieved'',
      num_iter = 5,
      wall_time = 79766 / 10 ^ 6,
      time = [0, 1, 2, 3, 4, 5, 6, 7, 8, 9, 10],
      initial_amps = [[1], [2], [3], [4], [5], [6], [7], [8], [9], [10]],
      final_amps = [[11], [12], [13], [14], [15], [16], [17], [18], [19], [20]]\<rparr>"

definition sample_ext :: ext where
  "sample_ext =
     \<lparr>optimize_pulse_unitary = (\<lambda>c. Inr sample_result),
      obj_str = (\<lambda>v. ''<object>''),
      logging_INFO = VInt 20\<rparr>"



subsection \<open>Properties of a run\<close>

text \<open>The variables the optimiser call reads.\<close>

definition param_names :: "string list" where
  "param_names =
     [''H_d'', ''H_c'', ''U_0'', ''U_targ'', ''n_ts'', ''evo_time'', ''fid_err_targ'',
      ''min_grad'', ''max_iter'', ''max_wall_time'', ''f_ext'', ''p_type'', ''log_level'']"

text \<open>An event that reads, prints or plots: what reporting a result consists of.\<close>

definition shows_result :: "event \<Rightarrow> bool" where
  "shows_result e =
     (case e of EReadResult n \<Rightarrow> True | EPrint t \<Rightarrow> True | EPlot c \<Rightarrow> True | _ \<Rightarrow> False)"

definition shows_result_or_versions :: "event \<Rightarrow> bool" where
  "shows_result_or_versions e =
     (shows_result e \<or> e = EImport ''qutip.ipynbtools'' \<or> e = EVersionTable)"

text \<open>
  The trace holds one optimiser call, with six positional arguments and exactly the
  keywords \<open>ks\<close>.
\<close>

definition same_names :: "string list \<Rightarrow> string list \<Rightarrow> bool" where
  "same_names ks ns = (list_all (\<lambda>k. k \<in> set ns) ks \<and> list_all (\<lambda>n. n \<in> set ks) ns)"

definition passes_exactly :: "string list \<Rightarrow> event list \<Rightarrow> bool" where
  "passes_exactly ks es =
     (case calls_of es of
        [c] \<Rightarrow> length (pos c) = 6 \<and> same_names ks (map fst (kw c))
      | _ \<Rightarrow> False)"

text \<open>
  The keywords for the error target, the iteration limit, the wall-time limit, the gradient
  threshold, the initial-pulse-shape selector and the output-file naming.
\<close>

definition listed_keywords :: "string list" where
  "listed_keywords =
     [''fid_err_targ'', ''max_iter'', ''max_wall_time'', ''min_grad'', ''init_pulse_type'',
      ''out_file_ext'']"

text \<open>
  The six entries of the result record in the data model: the optimised amplitude sequence,
  the fidelity error, the gradient norm, the termination reason, the iteration count and
  the wall-clock timing breakdown (the wall time and the statistics report).
\<close>

definition listed_fields :: "string list" where
  "listed_fields =
     [''final_amps'', ''fid_err'', ''grad_norm_final'', ''termination_reason'', ''num_iter'',
      ''wall_time'', ''stats'']"

definition consumes_only :: "string list \<Rightarrow> event list \<Rightarrow> bool" where
  "consumes_only fs es = list_all (\<lambda>n. n \<in> set fs) (reads_of es)"


definition method_keywords :: "string list" where
  "method_keywords =
     [''alg'', ''alg_params'', ''optim_params'', ''optim_method'', ''method_params'',
      ''optim_alg'']"


text \<open>Operators: shape, conjugate transpose, product, Hermitian and unitary matrices.\<close>

definition square :: "nat \<Rightarrow> qobj \<Rightarrow> bool" where
  "square n m = (length m = n \<and> map length m = replicate n n)"

definition dagger :: "qobj \<Rightarrow> qobj" where
  "dagger m = map (map cnj) (transpose m)"

definition matmul :: "qobj \<Rightarrow> qobj \<Rightarrow> qobj" where
  "matmul a b = map (\<lambda>r. map (\<lambda>c. sum_list (map2 (*) r c)) (transpose b)) a"

definition hermitian :: "qobj \<Rightarrow> bool" where
  "hermitian m = (dagger m = m)"

definition unitary :: "qobj \<Rightarrow> bool" where
  "unitary u =
     (matmul (dagger u) u = identity (length u) \<and> matmul u (dagger u) = identity (length u))"

text \<open>
  The amplitude rows of a result for \<open>n\<close> timeslots: \<open>n\<close> rows, each with at least the
  first control's entry.
\<close>

definition amps_shape :: "nat \<Rightarrow> real list list \<Rightarrow> bool" where
  "amps_shape n m = (length m = n \<and> 0 < n \<and> [] \<notin> set m)"

subsection \<open>The run in closed form\<close>

text \<open>
  The state after the parameter cells, with \<open>v\<close> the value of \<^verbatim>\<open>f_ext\<close>; the call the
  optimiser cell builds from it; and what the reporting and plotting cells add to the trace.
\<close>

definition param_globals :: "ext \<Rightarrow> pyval \<Rightarrow> (string \<rightharpoonup> pyval)" where
  "param_globals x v =
     [''logger'' \<mapsto> VLogger, ''log_level'' \<mapsto> logging_INFO x,
      ''example_name'' \<mapsto> VStr ''Hadamard'', ''H_d'' \<mapsto> VQobj sigmaz,
      ''H_c'' \<mapsto> VList [VQobj sigmax], ''U_0'' \<mapsto> VQobj (identity 2),
      ''U_targ'' \<mapsto> VQobj (hadamard_transform 1), ''n_ts'' \<mapsto> VInt 10,
      ''evo_time'' \<mapsto> VInt 10, ''fid_err_targ'' \<mapsto> VFloat (1 / 10 ^ 10),
      ''max_iter'' \<mapsto> VInt 200, ''max_wall_time'' \<mapsto> VInt 120,
      ''min_grad'' \<mapsto> VFloat (1 / 10 ^ 20), ''p_type'' \<mapsto> VStr ''RND'',
      ''f_ext'' \<mapsto> v]"

definition param_events :: "event list" where
  "param_events =
     [EMagic ''matplotlib inline'', EImport ''numpy'', EImport ''matplotlib.pyplot'',
      EImport ''datetime'', EImport ''qutip'', EImport ''qutip.qip'',
      EImport ''qutip.logging_utils'', EGetLogger, EImport ''qutip.control.pulseoptim'']"

definition built_call :: "ext \<Rightarrow> pyval \<Rightarrow> call" where
  "built_call x v =
     \<lparr>pos = [VQobj sigmaz, VList [VQobj sigmax], VQobj (identity 2),
             VQobj (hadamard_transform 1), VInt 10, VInt 10],
      kw = [(''fid_err_targ'', VFloat (1 / 10 ^ 10)), (''min_grad'', VFloat (1 / 10 ^ 20)),
            (''max_iter'', VInt 200), (''max_wall_time'', VInt 120),
            (''out_file_ext'', v), (''init_pulse_type'', VStr ''RND''),
            (''log_level'', logging_INFO x), (''gen_stats'', VBool True)]\<rparr>"

definition report_events :: "ext \<Rightarrow> optim_result \<Rightarrow> event list" where
  "report_events x r =
     [EReadResult ''stats'', EPrint (stats r),
      EReadResult ''evo_full_final'',
      EPrint (''Final evolution\<newline>'' @ obj_str x (VQobj (evo_full_final r)) @ ''\<newline>''),
      EPrint ''********* Summary *****************'',
      EReadResult ''fid_err'',
      EPrint (''Final fidelity error '' @ obj_str x (VFloat (fid_err r))),
      EReadResult ''grad_norm_final'',
      EPrint (''Final gradient normal '' @ obj_str x (VFloat (grad_norm_final r))),
      EReadResult ''termination_reason'',
      EPrint (''Terminated due to '' @ termination_reason r),
      EReadResult ''num_iter'',
      EPrint (''Number of iterations '' @ str_int (num_iter r)),
      EReadResult ''wall_time'',
      EPrint (''Completed in '' @ obj_str x (VTimedelta (wall_time r)) @ '' HH:MM:SS.US'')]"

definition step_error :: "real list list \<Rightarrow> error option" where
  "step_error m =
     (case column_of m 0 of
        Inl e \<Rightarrow> Some e
      | Inr c \<Rightarrow> (case item_of m (- 1) 0 of Inl e \<Rightarrow> Some e | Inr l \<Rightarrow> None))"

definition step_events :: "int \<Rightarrow> string \<Rightarrow> real list \<Rightarrow> real list list \<Rightarrow> event list" where
  "step_events i amps ts m =
     (case column_of m 0 of
        Inl e \<Rightarrow> [EReadResult ''time'', EReadResult amps]
      | Inr c \<Rightarrow>
          (case item_of m (- 1) 0 of
             Inl e \<Rightarrow> [EReadResult ''time'', EReadResult amps, EReadResult amps]
           | Inr l \<Rightarrow>
               [EReadResult ''time'', EReadResult amps, EReadResult amps,
                EPlot (Step i ts (c @ [l]) ''post'')]))"

definition tail_error :: "optim_result \<Rightarrow> error option" where
  "tail_error r =
     (case step_error (initial_amps r) of
        Some e \<Rightarrow> Some e
      | None \<Rightarrow> step_error (final_amps r))"

definition tail_globals :: "optim_result \<Rightarrow> (string \<rightharpoonup> pyval) \<Rightarrow> (string \<rightharpoonup> pyval)" where
  "tail_globals r g =
     (case step_error (initial_amps r) of
        Some e \<Rightarrow> g(''fig1'' \<mapsto> VFigure, ''ax1'' \<mapsto> VAxes 1)
      | None \<Rightarrow> g(''fig1'' \<mapsto> VFigure, ''ax1'' \<mapsto> VAxes 1, ''ax2'' \<mapsto> VAxes 2))"

definition tail_events :: "optim_result \<Rightarrow> event list" where
  "tail_events r =
     [EPlot Figure, EPlot (AddSubplot 2 1 1), EPlot (SetTitle 1 ''Initial control amps''),
      EPlot (SetYLabel 1 ''Control amplitude'')] @
     step_events 1 ''initial_amps'' (time r) (initial_amps r) @
     (case step_error (initial_amps r) of
        Some e \<Rightarrow> []
      | None \<Rightarrow>
          [EPlot (AddSubplot 2 1 2), EPlot (SetTitle 2 ''Optimised Control Sequences''),
           EPlot (SetXLabel 2 ''Time''), EPlot (SetYLabel 2 ''Control amplitude'')] @
          step_events 2 ''final_amps'' (time r) (final_amps r) @
          (case step_error (final_amps r) of
             Some e \<Rightarrow> []
           | None \<Rightarrow>
               [EPlot TightLayout, EPlot Show, EImport ''qutip.ipynbtools'', EVersionTable]))"

definition outcome :: "ext \<Rightarrow> pyval \<Rightarrow> (error + unit) \<times> nb_state" where
  "outcome x v =
     (case optimize_pulse_unitary x (built_call x v) of
        Inl e \<Rightarrow>
          (Inl e, \<lparr>globals = param_globals x v,
                   events = param_events @ [ECall (built_call x v)]\<rparr>)
      | Inr r \<Rightarrow>
          ((case tail_error r of Some e \<Rightarrow> Inl e | None \<Rightarrow> Inr ()),
           \<lparr>globals = tail_globals r ((param_globals x v)(''result'' \<mapsto> VResult r)),
            events = param_events @ ECall (built_call x v) #
                       map EFileWrite (output_files (built_call x v)) @
                       report_events x r @ tail_events r\<rparr>))"

section \<open>Running the notebook\<close>

text \<open>
  Each cell is run on the state the cells before it leave; together the steps show that
  the run of the notebook is its closed form, for every library.
\<close>

lemmas py_defs =
  ret_def raise_def bind_py_def then_py_def lift_def emit_def var_def assign_def py_import_def

lemma seq_step: "m s = (Inr (), s') \<Longrightarrow> seq (m # ms) s = seq ms s'"
  by (simp add: then_py_def bind_py_def)

lemma seq_fail: "m s = (Inl e, s') \<Longrightarrow> seq (m # ms) s = (Inl e, s')"
  by (simp add: then_py_def bind_py_def)

lemma seq_emits: "seq (map (\<lambda>f. emit (g f)) fs) s = (Inr (), s\<lparr>events := events s @ map g fs\<rparr>)"
  by (induction fs arbitrary: s) (simp_all add: py_defs)

lemma run6:
  "seq [cell_imports, cell_setup x, cell_physics, cell_time, cell_termination, cell_pulse_type]
     initial_state =
   (Inr (), \<lparr>globals = (param_globals x v)(''f_ext'' := None), events = param_events\<rparr>)"
  by (simp add: py_defs cell_imports_def cell_setup_def cell_physics_def cell_time_def
      cell_termination_def cell_pulse_type_def initial_state_def get_logger_def
      param_globals_def param_events_def)

lemma seq_append:
  "seq (ms @ ns) s = (case seq ms s of (Inl e, s') \<Rightarrow> (Inl e, s') | (Inr u, s') \<Rightarrow> seq ns s')"
  by (induction ms arbitrary: s) (auto simp: py_defs split: prod.splits sum.splits)

lemma file_ext_run:
  "cell_file_ext x \<lparr>globals = (param_globals x v)(''f_ext'' := None), events = es\<rparr> =
   (Inr (), \<lparr>globals = param_globals x (VStr ''Hadamard_n_ts10_ptypeRND.txt''), events = es\<rparr>)"
  by (simp add: py_defs cell_file_ext_def format_def py_str_def str_int_def digit_char_def
      param_globals_def)

lemma file_ext_set_run:
  "assign ''f_ext'' (ret w) \<lparr>globals = (param_globals x v)(''f_ext'' := None), events = es\<rparr> =
   (Inr (), \<lparr>globals = param_globals x w, events = es\<rparr>)"
  by (simp add: py_defs param_globals_def)

lemma optimise_run:
  "cell_optimise x \<lparr>globals = param_globals x v, events = es\<rparr> =
   (case optimize_pulse_unitary x (built_call x v) of
      Inl e \<Rightarrow> (Inl e, \<lparr>globals = param_globals x v, events = es @ [ECall (built_call x v)]\<rparr>)
    | Inr r \<Rightarrow>
        (Inr (), \<lparr>globals = (param_globals x v)(''result'' \<mapsto> VResult r),
                  events = es @ ECall (built_call x v) #
                             map EFileWrite (output_files (built_call x v))\<rparr>))"
  by (simp add: cell_optimise_def call_optimize_pulse_unitary_def seq_emits [unfolded emit_def]
        param_globals_def built_call_def py_defs split: sum.splits)

lemma report_run:
  "globals s ''result'' = Some (VResult r) \<Longrightarrow>
   cell_report x s = (Inr (), s\<lparr>events := events s @ report_events x r\<rparr>)"
  by (simp add: cell_report_def result_field_def getattr_def result_attr_def report_def
        print_def timedelta_def format_def py_str_def report_events_def py_defs)

lemma step_plot_run:
  assumes "globals s ax = Some (VAxes i)"
    and "globals s ''result'' = Some (VResult r)"
    and "result_attr r amps = Some (VArray2 m)"
  shows "step_plot ax amps s =
         ((case step_error m of Some e \<Rightarrow> Inl e | None \<Rightarrow> Inr ()),
          s\<lparr>events := events s @ step_events i amps (time r) m\<rparr>)"
proof -
  have t: "result_attr r ''time'' = Some (VArray1 (time r))"
    by (simp add: result_attr_def)
  show ?thesis
    using assms t
    by (simp add: step_plot_def result_field_def getattr_def column_def item_def hstack_def
        step_def step_error_def step_events_def py_defs split: sum.splits)
qed

lemma tail_run:
  assumes "globals s ''result'' = Some (VResult r)"
  shows "seq [cell_plot, cell_versions] s =
         ((case tail_error r of Some e \<Rightarrow> Inl e | None \<Rightarrow> Inr ()),
          \<lparr>globals = tail_globals r (globals s), events = events s @ tail_events r\<rparr>)"
proof -
  have a: "result_attr r ''initial_amps'' = Some (VArray2 (initial_amps r))"
    and b: "result_attr r ''final_amps'' = Some (VArray2 (final_amps r))"
    by (simp_all add: result_attr_def)
  show ?thesis
    using assms
    by (simp add: cell_plot_def cell_versions_def figure_def add_subplot_def set_title_def
        set_xlabel_def set_ylabel_def step_plot_run [OF _ _ a] step_plot_run [OF _ _ b]
        tail_error_def tail_globals_def tail_events_def py_defs split: option.splits)
qed

lemma run_from_file_ext:
  assumes c: "c \<lparr>globals = (param_globals x v)(''f_ext'' := None), events = param_events\<rparr> =
              (Inr (), \<lparr>globals = param_globals x w, events = param_events\<rparr>)"
  shows "notebook_with c x = outcome x w"
proof -
  let ?s6 = "\<lparr>globals = (param_globals x v)(''f_ext'' := None), events = param_events\<rparr>"
  let ?s7 = "\<lparr>globals = param_globals x w, events = param_events\<rparr>"
  let ?rest = "[cell_report x, cell_plot, cell_versions]"
  let ?call = "built_call x w"
  have split: "cells_with c x =
      [cell_imports, cell_setup x, cell_physics, cell_time, cell_termination, cell_pulse_type] @
      c # cell_optimise x # ?rest"
    by (simp add: cells_with_def)
  have "notebook_with c x = seq (c # cell_optimise x # ?rest) ?s6"
    unfolding notebook_with_def split seq_append run6 [of x v] by simp
  also have "\<dots> = seq (cell_optimise x # ?rest) ?s7"
    using c by (rule seq_step)
  also have "\<dots> = outcome x w"
  proof (cases "optimize_pulse_unitary x ?call")
    case (Inl e)
    have "cell_optimise x ?s7 =
          (Inl e, \<lparr>globals = param_globals x w, events = param_events @ [ECall ?call]\<rparr>)"
      by (simp add: optimise_run Inl)
    then have "seq (cell_optimise x # ?rest) ?s7 =
          (Inl e, \<lparr>globals = param_globals x w, events = param_events @ [ECall ?call]\<rparr>)"
      by (rule seq_fail)
    then show ?thesis
      by (simp add: outcome_def Inl)
  next
    case (Inr r)
    let ?s8 = "\<lparr>globals = (param_globals x w)(''result'' \<mapsto> VResult r),
                events = param_events @ ECall ?call # map EFileWrite (output_files ?call)\<rparr>"
    let ?s9 = "?s8\<lparr>events := events ?s8 @ report_events x r\<rparr>"
    have "cell_optimise x ?s7 = (Inr (), ?s8)"
      by (simp add: optimise_run Inr)
    then have "seq (cell_optimise x # ?rest) ?s7 = seq ?rest ?s8"
      by (rule seq_step)
    also have "cell_report x ?s8 = (Inr (), ?s9)"
      by (rule report_run) simp
    then have "seq ?rest ?s8 = seq [cell_plot, cell_versions] ?s9"
      by (rule seq_step)
    also have "\<dots> = outcome x w"
      by (simp add: tail_run [of _ r] outcome_def Inr del: seq.simps)
    finally show ?thesis .
  qed
  finally show ?thesis .
qed

lemma notebook_with_run: "notebook_with (assign ''f_ext'' (ret v)) x = outcome x v"
  using file_ext_set_run [of v x v param_events] by (rule run_from_file_ext)

lemma notebook_run: "notebook x = outcome x (VStr ''Hadamard_n_ts10_ptypeRND.txt'')"
  unfolding notebook_def
  using file_ext_run [of x VNone param_events] by (rule run_from_file_ext)

lemma run_cells_7:
  "run_cells 7 x =
   (Inr (), \<lparr>globals = param_globals x (VStr ''Hadamard_n_ts10_ptypeRND.txt''),
             events = param_events\<rparr>)"
proof -
  have "take 7 (cells_with (cell_file_ext x) x) =
      [cell_imports, cell_setup x, cell_physics, cell_time, cell_termination, cell_pulse_type] @
      [cell_file_ext x]"
    by (simp add: cells_with_def)
  then show ?thesis
    unfolding run_cells_def
    by (simp only: seq_append run6 [of x VNone])
       (simp add: file_ext_run then_py_def bind_py_def ret_def)
qed

lemma run_cells_8:
  "run_cells 8 x =
   (case optimize_pulse_unitary x (built_call x (VStr ''Hadamard_n_ts10_ptypeRND.txt'')) of
      Inl e \<Rightarrow>
        (Inl e, \<lparr>globals = param_globals x (VStr ''Hadamard_n_ts10_ptypeRND.txt''),
                 events = param_events @
                   [ECall (built_call x (VStr ''Hadamard_n_ts10_ptypeRND.txt''))]\<rparr>)
    | Inr r \<Rightarrow>
        (Inr (), \<lparr>globals = (param_globals x (VStr ''Hadamard_n_ts10_ptypeRND.txt''))
                             (''result'' \<mapsto> VResult r),
                  events = param_events @
                    ECall (built_call x (VStr ''Hadamard_n_ts10_ptypeRND.txt'')) #
                    map EFileWrite
                      (output_files (built_call x (VStr ''Hadamard_n_ts10_ptypeRND.txt'')))\<rparr>))"
proof -
  have "take 8 (cells_with (cell_file_ext x) x) =
      [cell_imports, cell_setup x, cell_physics, cell_time, cell_termination, cell_pulse_type] @
      [cell_file_ext x, cell_optimise x]"
    by (simp add: cells_with_def)
  then show ?thesis
    unfolding run_cells_def
    by (simp only: seq_append run6 [of x VNone])
       (simp add: file_ext_run optimise_run then_py_def bind_py_def ret_def split: sum.splits)
qed

subsection \<open>Reading the trace of a run\<close>

lemma calls_of_append: "calls_of (es @ fs) = calls_of es @ calls_of fs"
  by (induction es rule: calls_of.induct) simp_all

lemma reads_of_append: "reads_of (es @ fs) = reads_of es @ reads_of fs"
  by (induction es rule: reads_of.induct) simp_all

lemma files_of_append: "files_of (es @ fs) = files_of es @ files_of fs"
  by (induction es rule: files_of.induct) simp_all

lemma steps_of_append: "steps_of (es @ fs) = steps_of es @ steps_of fs"
  by (induction es rule: steps_of.induct) simp_all

lemma file_writes:
  "calls_of (map EFileWrite fs) = []" "reads_of (map EFileWrite fs) = []"
  "files_of (map EFileWrite fs) = fs" "steps_of (map EFileWrite fs) = []"
  by (induction fs) simp_all

lemma param_events_trace:
  "calls_of param_events = []" "reads_of param_events = []"
  "files_of param_events = []" "steps_of param_events = []"
  by (simp_all add: param_events_def)

lemma report_events_trace:
  "calls_of (report_events x r) = []"
  "files_of (report_events x r) = []" "steps_of (report_events x r) = []"
  "reads_of (report_events x r) =
     [''stats'', ''evo_full_final'', ''fid_err'', ''grad_norm_final'', ''termination_reason'',
      ''num_iter'', ''wall_time'']"
  by (simp_all add: report_events_def)

lemma step_events_trace:
  "calls_of (step_events i a ts m) = []" "files_of (step_events i a ts m) = []"
  "list_all (\<lambda>n. n = ''time'' \<or> n = a) (reads_of (step_events i a ts m))"
  by (simp_all add: step_events_def split: sum.splits)

lemma tail_events_trace:
  "calls_of (tail_events r) = []" "files_of (tail_events r) = []"
  by (simp_all add: tail_events_def calls_of_append files_of_append
      step_events_trace split: option.splits)

lemma notebook_with_calls:
  "calls_of (events (snd (notebook_with (assign ''f_ext'' (ret v)) x))) = [built_call x v]"
  by (simp add: notebook_with_run outcome_def calls_of_append param_events_trace file_writes
      report_events_trace tail_events_trace split: sum.splits)

lemma notebook_calls:
  "calls_of (events (snd (notebook x))) = [built_call x (VStr ''Hadamard_n_ts10_ptypeRND.txt'')]"
  by (simp add: notebook_run outcome_def calls_of_append param_events_trace file_writes
      report_events_trace tail_events_trace split: sum.splits)

lemma outcome_globals:
  "n \<noteq> ''fig1'' \<Longrightarrow> n \<noteq> ''ax1'' \<Longrightarrow> n \<noteq> ''ax2'' \<Longrightarrow> n \<noteq> ''result'' \<Longrightarrow>
   globals (snd (outcome x v)) n = param_globals x v n"
  by (simp add: outcome_def tail_globals_def split: sum.splits option.splits)

lemma events_after_8:
  "events_after 8 x =
   (case optimize_pulse_unitary x (built_call x (VStr ''Hadamard_n_ts10_ptypeRND.txt'')) of
      Inl e \<Rightarrow> []
    | Inr r \<Rightarrow> report_events x r @ tail_events r)"
  by (simp add: events_after_def run_cells_8 notebook_run outcome_def split: sum.splits)

lemma notebook_events_split:
  "events (snd (notebook x)) = events (snd (run_cells 8 x)) @ events_after 8 x"
  by (simp add: events_after_8 run_cells_8 notebook_run outcome_def split: sum.splits)

lemma report_events_show: "list_all shows_result_or_versions (report_events x r)"
  by (simp add: report_events_def shows_result_or_versions_def shows_result_def)

lemma tail_events_show: "list_all shows_result_or_versions (tail_events r)"
  by (simp add: tail_events_def step_events_def shows_result_or_versions_def shows_result_def
      split: option.splits sum.splits)

lemma tail_events_reads:
  "list_all (\<lambda>n. n \<in> set [''time'', ''initial_amps'', ''final_amps'']) (reads_of (tail_events r))"
  by (simp add: tail_events_def step_events_def reads_of_append split: option.splits sum.splits)

lemma outcome_files:
  "files_of (events (snd (outcome x v))) =
   (case optimize_pulse_unitary x (built_call x v) of
      Inl e \<Rightarrow> []
    | Inr r \<Rightarrow> output_files (built_call x v))"
  by (simp add: outcome_def files_of_append param_events_trace file_writes report_events_trace
      tail_events_trace split: sum.splits)

subsection \<open>The operators\<close>

lemma hermitian_sigmaz: "hermitian sigmaz"
  by (simp add: hermitian_def dagger_def sigmaz_def)

lemma hermitian_sigmax: "hermitian sigmax"
  by (simp add: hermitian_def dagger_def sigmax_def)

lemma upt_2: "[0..<2] = [0, 1]"
  by (simp add: upt_rec numeral_2_eq_2)

lemma identity_2: "identity 2 = [[1, 0], [0, 1]]"
  unfolding identity_def upt_2 by simp

lemma identity_Suc_Suc: "identity (Suc (Suc 0)) = [[1, 0], [0, 1]]"
  by (simp add: identity_def)

lemma unitary_identity: "unitary (identity 2)"
  unfolding unitary_def identity_2 by (simp add: dagger_def matmul_def identity_Suc_Suc)

lemma hadamard_1: "hadamard_transform 1 = hadamard_gate"
  by (simp add: hadamard_gate_def kron_def)

lemma sqrt2_sq: "complex_of_real (sqrt 2) * complex_of_real (sqrt 2) = 2"
  by (simp flip: of_real_mult)

lemma unitary_hadamard: "unitary (hadamard_transform 1)"
  unfolding unitary_def hadamard_1
  apply (simp add: hadamard_gate_def dagger_def matmul_def identity_Suc_Suc sqrt2_sq)
  done

subsection \<open>Changing the termination reason\<close>






subsection \<open>Exceptions and the variables of the later cells\<close>





subsection \<open>Amplitude arrays of the expected shape\<close>

lemma column_of_first: "[] \<notin> set m \<Longrightarrow> column_of m 0 = Inr (map hd m)"
  by (induction m) (auto simp: column_of_def py_index_def hd_conv_nth)

lemma item_of_last:
  assumes "m \<noteq> []" and "[] \<notin> set m"
  shows "item_of m (- 1) 0 = Inr (hd (last m))"
proof -
  have k: "py_index (length m) (- 1) = Inr (length m - 1)"
    using assms(1) by (auto simp: py_index_def Let_def nat_diff_distrib')
  have l: "last m \<noteq> []"
    using assms by (metis last_in_set)
  then have j: "py_index (length (last m)) 0 = Inr 0"
    by (simp add: py_index_def)
  have row: "m ! (length m - 1) = last m"
    using assms(1) by (simp add: last_conv_nth)
  have "item_of m (- 1) 0 = Inr (last m ! 0)"
    unfolding item_of_def k sum.case row j by (rule refl)
  with l show ?thesis
    by (simp add: hd_conv_nth)
qed

lemma step_shape:
  assumes "amps_shape n m"
  shows "step_error m = None"
    and "step_events i a ts m =
         [EReadResult ''time'', EReadResult a, EReadResult a,
          EPlot (Step i ts (map hd m @ [last (map hd m)]) ''post'')]"
proof -
  from assms have ne: "m \<noteq> []" and rows: "[] \<notin> set m"
    by (auto simp: amps_shape_def)
  show "step_error m = None"
    by (simp add: step_error_def column_of_first [OF rows] item_of_last [OF ne rows])
  show "step_events i a ts m =
         [EReadResult ''time'', EReadResult a, EReadResult a,
          EPlot (Step i ts (map hd m @ [last (map hd m)]) ''post'')]"
    by (simp add: step_events_def column_of_first [OF rows] item_of_last [OF ne rows]
        last_map [OF ne])
qed

section \<open>The claims\<close>

subsection \<open>C1: one optimiser call, then reporting\<close>

text \<open>
  C1, as amended. For every library the trace of the notebook holds exactly one optimiser
  call. The seven parameter cells end normally, make no call, and leave every variable the
  call reads bound; the call happens in the eighth cell. The trace of the whole run is the
  trace up to the end of that cell followed by what the later cells add, and every event
  they add is a read of a result attribute, a print or a plotting command, or belongs to
  the last cell, which imports and displays the library's version table. The later cells
  make no further call and leave the parameters as they were before the call.
\<close>

theorem single_call:
  "length (calls_of (events (snd (notebook x)))) = 1
   \<and> fst (run_cells 7 x) = Inr ()
   \<and> list_all (\<lambda>n. globals (snd (run_cells 7 x)) n \<noteq> None) param_names
   \<and> calls_of (events (snd (run_cells 7 x))) = []
   \<and> length (calls_of (events (snd (run_cells 8 x)))) = 1
   \<and> events (snd (notebook x)) = events (snd (run_cells 8 x)) @ events_after 8 x
   \<and> list_all shows_result_or_versions (events_after 8 x)
   \<and> calls_of (events_after 8 x) = []
   \<and> map (globals (snd (notebook x))) param_names =
       map (globals (snd (run_cells 7 x))) param_names"
proof -
  have a: "length (calls_of (events (snd (notebook x)))) = 1"
    by (simp add: notebook_calls)
  have b: "fst (run_cells 7 x) = Inr ()"
    by (simp add: run_cells_7)
  have c: "list_all (\<lambda>n. globals (snd (run_cells 7 x)) n \<noteq> None) param_names"
    by (simp add: run_cells_7 param_names_def param_globals_def)
  have d: "calls_of (events (snd (run_cells 7 x))) = []"
    by (simp add: run_cells_7 param_events_trace)
  have e: "length (calls_of (events (snd (run_cells 8 x)))) = 1"
    by (simp add: run_cells_8 calls_of_append param_events_trace file_writes split: sum.splits)
  have f: "list_all shows_result_or_versions (events_after 8 x)"
    by (simp add: events_after_8 report_events_show tail_events_show split: sum.splits)
  have g: "calls_of (events_after 8 x) = []"
    by (simp add: events_after_8 calls_of_append report_events_trace tail_events_trace
        split: sum.splits)
  have h: "map (globals (snd (notebook x))) param_names =
           map (globals (snd (run_cells 7 x))) param_names"
    by (simp add: notebook_run run_cells_7 param_names_def outcome_globals)
  from a b c d e notebook_events_split f g h show ?thesis
    by (intro conjI)
qed

text \<open>The amended C1 at the sample library.\<close>

theorem single_call_witness:
  "length (calls_of (events (snd (notebook sample_ext)))) = 1
   \<and> list_all (\<lambda>n. globals (snd (run_cells 7 sample_ext)) n \<noteq> None) param_names
   \<and> list_all shows_result_or_versions (events_after 8 sample_ext)
   \<and> calls_of (events_after 8 sample_ext) = []"
  using single_call [of sample_ext] by blast

text \<open>
  C1 as stated fails: with the sample library, not every event after the optimiser cell
  reads, prints or plots a field of the result, because the last cell imports and displays
  the version table.
\<close>

theorem single_call_counterexample:
  "\<not> list_all shows_result (events_after 8 sample_ext)"
  by (simp add: events_after_8 sample_ext_def sample_result_def tail_events_def step_events_def
       step_error_def column_of_def item_of_def py_index_def shows_result_def)

subsection \<open>C2: the arguments of the optimiser call\<close>

text \<open>
  C2, as amended. For every library, the notebook makes one optimiser call; it passes six
  positional arguments (the drift Hamiltonian, the list of control Hamiltonians, the
  initial and the target operator, the number of timeslots and the evolution time) and
  the keywords for the error target, the iteration limit, the wall-time limit, the gradient
  threshold, the initial pulse type and the output-file suffix, and besides these the two
  keywords \<^verbatim>\<open>log_level\<close> and \<^verbatim>\<open>gen_stats\<close>.
\<close>

theorem call_arguments:
  "passes_exactly (listed_keywords @ [''log_level'', ''gen_stats'']) (events (snd (notebook x)))
   \<and> calls_of (events (snd (notebook x))) =
       [\<lparr>pos = [VQobj sigmaz, VList [VQobj sigmax], VQobj (identity 2),
                VQobj (hadamard_transform 1), VInt 10, VInt 10],
         kw = [(''fid_err_targ'', VFloat (1 / 10 ^ 10)), (''min_grad'', VFloat (1 / 10 ^ 20)),
               (''max_iter'', VInt 200), (''max_wall_time'', VInt 120),
               (''out_file_ext'', VStr ''Hadamard_n_ts10_ptypeRND.txt''),
               (''init_pulse_type'', VStr ''RND''),
               (''log_level'', logging_INFO x), (''gen_stats'', VBool True)]\<rparr>]"
  by (simp add: passes_exactly_def same_names_def notebook_calls built_call_def
      listed_keywords_def)

text \<open>The amended C2 at the sample library.\<close>

theorem call_arguments_witness:
  "passes_exactly (listed_keywords @ [''log_level'', ''gen_stats''])
     (events (snd (notebook sample_ext)))"
  using call_arguments [of sample_ext] by simp

text \<open>
  C2 as stated fails: with the sample library the keywords of the call are not exactly the
  six listed ones, since \<^verbatim>\<open>log_level\<close> and \<^verbatim>\<open>gen_stats\<close> are passed as well.
\<close>

theorem call_arguments_counterexample:
  "\<not> passes_exactly listed_keywords (events (snd (notebook sample_ext)))"
  by (simp add: passes_exactly_def same_names_def notebook_calls built_call_def
      listed_keywords_def)

subsection \<open>C3: the result attributes the notebook reads\<close>

text \<open>
  C3, as amended. For every library, every attribute of the result that the notebook reads
  is one of the six listed in the data model or one of three more: the final evolution
  operator \<^verbatim>\<open>evo_full_final\<close>, the time grid \<^verbatim>\<open>time\<close> and the initial amplitudes
  \<^verbatim>\<open>initial_amps\<close>.
\<close>

theorem fields_consumed:
  "consumes_only (listed_fields @ [''evo_full_final'', ''time'', ''initial_amps''])
     (events (snd (notebook x)))"
proof -
  define P where "P = (\<lambda>n. n \<in> set (listed_fields @ [''evo_full_final'', ''time'', ''initial_amps'']))"
  have "list_all P [''time'', ''initial_amps'', ''final_amps'']"
    by (simp add: P_def listed_fields_def)
  then have "\<And>n. n \<in> set [''time'', ''initial_amps'', ''final_amps''] \<Longrightarrow> P n"
    unfolding list_all_iff by blast
  then have tail: "list_all P (reads_of (tail_events r))" for r
    using tail_events_reads [of r] unfolding list_all_iff by blast
  have report: "list_all P (reads_of (report_events x r))" for r
    by (simp add: P_def report_events_trace listed_fields_def)
  have "list_all P (reads_of (events (snd (notebook x))))"
    unfolding notebook_run outcome_def
    by (simp add: reads_of_append param_events_trace file_writes tail report
        split: sum.splits)
  then show ?thesis
    by (simp only: consumes_only_def P_def)
qed

text \<open>The amended C3 at the sample library.\<close>

theorem fields_consumed_witness:
  "consumes_only (listed_fields @ [''evo_full_final'', ''time'', ''initial_amps''])
     (events (snd (notebook sample_ext)))"
  by (rule fields_consumed)

text \<open>
  C3 as stated fails: with the sample library the notebook reads \<^verbatim>\<open>evo_full_final\<close>
  (and \<^verbatim>\<open>time\<close> and \<^verbatim>\<open>initial_amps\<close>), which are not among the six listed entries.
\<close>

theorem fields_consumed_counterexample:
  "\<not> consumes_only listed_fields (events (snd (notebook sample_ext)))"
  by (simp add: consumes_only_def notebook_run outcome_def reads_of_append param_events_trace
      file_writes report_events_trace listed_fields_def sample_ext_def)

subsection \<open>C4: the four operators\<close>

text \<open>
  C4. For every library, the first four arguments of the optimiser call are the drift
  Hamiltonian sigma-z, the one-element list of the control Hamiltonian sigma-x, the
  identity of dimension 2 and the Hadamard transform on one qubit; each of the four
  operators is a 2x2 matrix, with the entries of sigma-z, sigma-x, the identity and the
  single-qubit Hadamard gate.
\<close>

theorem operators_passed:
  "map (\<lambda>c. take 4 (pos c)) (calls_of (events (snd (notebook x)))) =
     [[VQobj sigmaz, VList [VQobj sigmax], VQobj (identity 2), VQobj (hadamard_transform 1)]]
   \<and> square 2 sigmaz \<and> square 2 sigmax \<and> square 2 (identity 2)
   \<and> square 2 (hadamard_transform 1)
   \<and> sigmaz = [[1, 0], [0, - 1]]
   \<and> sigmax = [[0, 1], [1, 0]]
   \<and> identity 2 = [[1, 0], [0, 1]]
   \<and> hadamard_transform 1 =
       [[complex_of_real (1 / sqrt 2), complex_of_real (1 / sqrt 2)],
        [complex_of_real (1 / sqrt 2), - complex_of_real (1 / sqrt 2)]]"
  by (simp add: notebook_calls built_call_def square_def sigmaz_def sigmax_def identity_def
      hadamard_gate_def kron_def upt_rec numeral_2_eq_2)

subsection \<open>C5: termination is the library's business\<close>



subsection \<open>C6: output files\<close>

text \<open>
  C6. For every library: the parameter cells write no file and the cells after the
  optimiser cell write no file; the files of the whole run are the initial and the final
  amplitude file named by the suffix, written when the optimiser cell ends normally. With
  \<^verbatim>\<open>f_ext\<close> set to any other suffix string, the files written are none or the two files
  named by that suffix; with \<^verbatim>\<open>f_ext\<close> set to None, no file is written.
\<close>

theorem output_files_only:
  "files_of (events (snd (run_cells 7 x))) = []
   \<and> files_of (events_after 8 x) = []
   \<and> files_of (events (snd (notebook x))) =
       (case fst (run_cells 8 x) of
          Inl e \<Rightarrow> []
        | Inr u \<Rightarrow> [''ctrl_amps_initial_Hadamard_n_ts10_ptypeRND.txt'',
                   ''ctrl_amps_final_Hadamard_n_ts10_ptypeRND.txt''])
   \<and> (files_of (events (snd (notebook_with (assign ''f_ext'' (ret (VStr suffix))) x))) = []
      \<or> files_of (events (snd (notebook_with (assign ''f_ext'' (ret (VStr suffix))) x))) =
          [''ctrl_amps_initial_'' @ suffix, ''ctrl_amps_final_'' @ suffix])
   \<and> files_of (events (snd (notebook_with (assign ''f_ext'' (ret VNone)) x))) = []"
proof -
  have a: "files_of (events (snd (run_cells 7 x))) = []"
    by (simp add: run_cells_7 param_events_trace)
  have b: "files_of (events_after 8 x) = []"
    by (simp add: events_after_8 files_of_append report_events_trace tail_events_trace
        split: sum.splits)
  have c: "files_of (events (snd (notebook x))) =
       (case fst (run_cells 8 x) of
          Inl e \<Rightarrow> []
        | Inr u \<Rightarrow> [''ctrl_amps_initial_Hadamard_n_ts10_ptypeRND.txt'',
                   ''ctrl_amps_final_Hadamard_n_ts10_ptypeRND.txt''])"
    by (simp add: notebook_run outcome_files run_cells_8 output_files_def built_call_def
        split: sum.splits)
  have d: "files_of (events (snd (notebook_with (assign ''f_ext'' (ret (VStr suffix))) x))) = []
      \<or> files_of (events (snd (notebook_with (assign ''f_ext'' (ret (VStr suffix))) x))) =
          [''ctrl_amps_initial_'' @ suffix, ''ctrl_amps_final_'' @ suffix]"
    by (simp add: notebook_with_run outcome_files output_files_def built_call_def
        split: sum.splits)
  have e: "files_of (events (snd (notebook_with (assign ''f_ext'' (ret VNone)) x))) = []"
    by (simp add: notebook_with_run outcome_files output_files_def built_call_def
        split: sum.splits)
  from a b c d e show ?thesis
    by (intro conjI)
qed

text \<open>C6 at the sample library, whose optimiser returns.\<close>

theorem output_files_only_witness:
  "files_of (events (snd (notebook sample_ext))) =
     [''ctrl_amps_initial_Hadamard_n_ts10_ptypeRND.txt'',
      ''ctrl_amps_final_Hadamard_n_ts10_ptypeRND.txt'']
   \<and> files_of (events (snd (notebook_with (assign ''f_ext'' (ret VNone)) sample_ext))) = []"
  using output_files_only [of sample_ext "''out.txt''"]
  by (simp add: run_cells_8 sample_ext_def)

subsection \<open>C7: the optimisation method\<close>

text \<open>
  C7. For every library, the method the optimiser call selects is L-BFGS-B: the call
  passes none of the keywords that choose the algorithm or the method, and only six
  positional arguments, so the library's default applies.
\<close>

theorem default_method:
  "map optim_method_used (calls_of (events (snd (notebook x)))) = [VStr ''fmin_l_bfgs_b'']
   \<and> map (\<lambda>c. filter (\<lambda>k. k \<in> set method_keywords) (map fst (kw c)))
         (calls_of (events (snd (notebook x)))) = [[]]
   \<and> map (\<lambda>c. length (pos c)) (calls_of (events (snd (notebook x)))) = [6]"
  by (simp add: notebook_calls built_call_def optim_method_used_def method_keywords_def)

subsection \<open>C8: the operators meet the optimiser's preconditions\<close>

text \<open>
  C8. The drift Hamiltonian sigma-z and the control Hamiltonian sigma-x are Hermitian, the
  initial operator (the identity) and the target (the Hadamard transform on one qubit) are
  unitary, all four are 2x2 matrices, and these are the operators the notebook passes to
  the optimiser.
\<close>

theorem operators_physical:
  "hermitian sigmaz \<and> hermitian sigmax
   \<and> unitary (identity 2) \<and> unitary (hadamard_transform 1)
   \<and> square 2 sigmaz \<and> square 2 sigmax \<and> square 2 (identity 2)
   \<and> square 2 (hadamard_transform 1)
   \<and> map (\<lambda>c. take 4 (pos c)) (calls_of (events (snd (notebook x)))) =
       [[VQobj sigmaz, VList [VQobj sigmax], VQobj (identity 2), VQobj (hadamard_transform 1)]]"
proof -
  have "square 2 sigmaz" "square 2 sigmax" "square 2 (identity 2)"
    "square 2 (hadamard_transform 1)"
    unfolding identity_2 hadamard_1
    by (simp_all add: square_def sigmaz_def sigmax_def hadamard_gate_def numeral_2_eq_2)
  moreover have "map (\<lambda>c. take 4 (pos c)) (calls_of (events (snd (notebook x)))) =
       [[VQobj sigmaz, VList [VQobj sigmax], VQobj (identity 2), VQobj (hadamard_transform 1)]]"
    by (simp add: notebook_calls built_call_def)
  ultimately show ?thesis
    using hermitian_sigmaz hermitian_sigmax unitary_identity unitary_hadamard
    by (intro conjI)
qed

subsection \<open>C9: the configuration constants\<close>

text \<open>
  C9. For every library, after the parameter cells and at the end of the run the
  variables hold \<^verbatim>\<open>n_ts = 10\<close>, \<^verbatim>\<open>evo_time = 10\<close>, \<^verbatim>\<open>fid_err_targ = 1e-10\<close>,
  \<^verbatim>\<open>max_iter = 200\<close>, \<^verbatim>\<open>max_wall_time = 120\<close>, \<^verbatim>\<open>min_grad = 1e-20\<close>, \<^verbatim>\<open>p_type = 'RND'\<close>
  and \<^verbatim>\<open>example_name = 'Hadamard'\<close>, and \<^verbatim>\<open>f_ext\<close> is the template filled with the
  example name, the timeslot count and the pulse type:
  \<^verbatim>\<open>Hadamard_n_ts10_ptypeRND.txt\<close>.
\<close>

theorem configuration_constants:
  "map (globals (snd (notebook x)))
     [''n_ts'', ''evo_time'', ''fid_err_targ'', ''max_iter'', ''max_wall_time'', ''min_grad'',
      ''p_type'', ''example_name'', ''f_ext''] =
     [Some (VInt 10), Some (VInt 10), Some (VFloat (1 / 10 ^ 10)), Some (VInt 200),
      Some (VInt 120), Some (VFloat (1 / 10 ^ 20)), Some (VStr ''RND''),
      Some (VStr ''Hadamard''), Some (VStr ''Hadamard_n_ts10_ptypeRND.txt'')]
   \<and> map (globals (snd (run_cells 7 x)))
     [''n_ts'', ''evo_time'', ''fid_err_targ'', ''max_iter'', ''max_wall_time'', ''min_grad'',
      ''p_type'', ''example_name'', ''f_ext''] =
     [Some (VInt 10), Some (VInt 10), Some (VFloat (1 / 10 ^ 10)), Some (VInt 200),
      Some (VInt 120), Some (VFloat (1 / 10 ^ 20)), Some (VStr ''RND''),
      Some (VStr ''Hadamard''), Some (VStr ''Hadamard_n_ts10_ptypeRND.txt'')]
   \<and> fill ''{}_n_ts{}_ptype{}.txt'' [''Hadamard'', str_int 10, ''RND''] =
       Inr ''Hadamard_n_ts10_ptypeRND.txt''"
  by (simp add: notebook_run run_cells_7 outcome_globals param_globals_def str_int_def
      digit_char_def)

subsection \<open>C10: the step plots\<close>

text \<open>
  C10. Let the optimiser return a result \<open>r\<close> for \<open>n\<close> timeslots, \<open>n\<close> the value of
  \<^verbatim>\<open>n_ts\<close>: its two amplitude arrays have \<open>n\<close> rows with at least one column, and its time
  grid has \<open>n + 1\<close> points. Then the run ends normally and makes two step plots, of the
  initial and of the final amplitudes; each plots, against the time grid, the first column
  of the array followed by one more copy of the column's last element, a sequence of
  length \<open>n + 1\<close>, the length of the time grid. The variable \<^verbatim>\<open>result\<close> still holds \<open>r\<close>
  at the end.
\<close>

theorem step_plots:
  assumes returned: "map (optimize_pulse_unitary x) (calls_of (events (snd (notebook x)))) = [Inr r]"
    and n_ts: "globals (snd (notebook x)) ''n_ts'' = Some (VInt (int n))"
    and grid: "length (time r) = n + 1"
    and initial: "amps_shape n (initial_amps r)"
    and final: "amps_shape n (final_amps r)"
  shows "fst (notebook x) = Inr ()
     \<and> steps_of (events (snd (notebook x))) =
         [Step 1 (time r) (map hd (initial_amps r) @ [last (map hd (initial_amps r))]) ''post'',
          Step 2 (time r) (map hd (final_amps r) @ [last (map hd (final_amps r))]) ''post'']
     \<and> length (map hd (initial_amps r) @ [last (map hd (initial_amps r))]) = n + 1
     \<and> length (map hd (final_amps r) @ [last (map hd (final_amps r))]) = n + 1
     \<and> length (time r) = n + 1
     \<and> n = 10
     \<and> globals (snd (notebook x)) ''result'' = Some (VResult r)"
proof -
  let ?v = "VStr ''Hadamard_n_ts10_ptypeRND.txt''"
  from returned have opt: "optimize_pulse_unitary x (built_call x ?v) = Inr r"
    by (simp add: notebook_calls)
  have err: "tail_error r = None"
    by (simp add: tail_error_def step_shape(1) [OF initial] step_shape(1) [OF final])
  have ev: "tail_events r =
      [EPlot Figure, EPlot (AddSubplot 2 1 1), EPlot (SetTitle 1 ''Initial control amps''),
       EPlot (SetYLabel 1 ''Control amplitude''),
       EReadResult ''time'', EReadResult ''initial_amps'', EReadResult ''initial_amps'',
       EPlot (Step 1 (time r) (map hd (initial_amps r) @ [last (map hd (initial_amps r))]) ''post''),
       EPlot (AddSubplot 2 1 2), EPlot (SetTitle 2 ''Optimised Control Sequences''),
       EPlot (SetXLabel 2 ''Time''), EPlot (SetYLabel 2 ''Control amplitude''),
       EReadResult ''time'', EReadResult ''final_amps'', EReadResult ''final_amps'',
       EPlot (Step 2 (time r) (map hd (final_amps r) @ [last (map hd (final_amps r))]) ''post''),
       EPlot TightLayout, EPlot Show, EImport ''qutip.ipynbtools'', EVersionTable]"
    by (simp add: tail_events_def step_shape [OF initial] step_shape [OF final])
  have a: "fst (notebook x) = Inr ()"
    by (simp add: notebook_run outcome_def opt err)
  have b: "steps_of (events (snd (notebook x))) =
         [Step 1 (time r) (map hd (initial_amps r) @ [last (map hd (initial_amps r))]) ''post'',
          Step 2 (time r) (map hd (final_amps r) @ [last (map hd (final_amps r))]) ''post'']"
    by (simp add: notebook_run outcome_def opt steps_of_append param_events_trace file_writes
        report_events_trace ev)
  have c: "length (map hd (initial_amps r) @ [last (map hd (initial_amps r))]) = n + 1"
    and d: "length (map hd (final_amps r) @ [last (map hd (final_amps r))]) = n + 1"
    using initial final by (simp_all add: amps_shape_def)
  have "globals (snd (notebook x)) ''n_ts'' = Some (VInt 10)"
    by (simp add: notebook_run outcome_globals param_globals_def)
  with n_ts have e: "n = 10"
    by simp
  have f: "globals (snd (notebook x)) ''result'' = Some (VResult r)"
    by (simp add: notebook_run outcome_def opt tail_globals_def split: option.splits)
  from a b c d grid e f show ?thesis
    by (intro conjI)
qed

text \<open>C10 at the sample library, whose result has ten timeslots.\<close>

theorem step_plots_witness:
  "map (optimize_pulse_unitary sample_ext) (calls_of (events (snd (notebook sample_ext)))) =
     [Inr sample_result]
   \<and> globals (snd (notebook sample_ext)) ''n_ts'' = Some (VInt (int 10))
   \<and> length (time sample_result) = 10 + 1
   \<and> amps_shape 10 (initial_amps sample_result)
   \<and> amps_shape 10 (final_amps sample_result)
   \<and> fst (notebook sample_ext) = Inr ()
   \<and> steps_of (events (snd (notebook sample_ext))) =
       [Step 1 [0, 1, 2, 3, 4, 5, 6, 7, 8, 9, 10] [1, 2, 3, 4, 5, 6, 7, 8, 9, 10, 10] ''post'',
        Step 2 [0, 1, 2, 3, 4, 5, 6, 7, 8, 9, 10] [11, 12, 13, 14, 15, 16, 17, 18, 19, 20, 20]
          ''post'']
   \<and> globals (snd (notebook sample_ext)) ''result'' = Some (VResult sample_result)"
proof -
  have returned: "map (optimize_pulse_unitary sample_ext)
      (calls_of (events (snd (notebook sample_ext)))) = [Inr sample_result]"
    by (simp add: notebook_calls sample_ext_def)
  have n_ts: "globals (snd (notebook sample_ext)) ''n_ts'' = Some (VInt (int 10))"
    by (simp add: notebook_run outcome_globals param_globals_def)
  have grid: "length (time sample_result) = 10 + 1"
    by (simp add: sample_result_def)
  have initial: "amps_shape 10 (initial_amps sample_result)"
    by (simp add: sample_result_def amps_shape_def)
  have final: "amps_shape 10 (final_amps sample_result)"
    by (simp add: sample_result_def amps_shape_def)
  from step_plots [OF returned n_ts grid initial final] returned n_ts grid initial final
  show ?thesis
    by (simp add: sample_result_def)
qed

end
